theory Spec2Isabelle
  imports Complex_Main "HOL-Library.Word"
begin

section \<open>Exceptions\<close>

text \<open>
  The Python exceptions the two modules raise or let through, as values. The argument is
  the exception's message (what \<open>str(exc)\<close> gives).
\<close>

datatype error =
    RuntimeError string
  | ImportError string
  | OSError string
  | FileNotFoundError string
  | WaveError string

section \<open>The world outside the program\<close>

text \<open>
  What the program does to its surroundings is recorded in a \<open>world\<close>: the thread-local
  counter \<open>_COM_STATE.count\<close>, the file system (a map from paths to contents) and the
  sequence of calls made to the external collaborators, oldest first.
\<close>

datatype event =
    CoInitialize
  | CoUninitialize
  | CreateVoice "string option"
  | EngineSpeak string int int
  | OutputStream int
  | Ran string int

text \<open>A file holds either a mono 16-bit WAV (sample rate, frames) or something else.\<close>

datatype file_content = Wav int "16 word list" | NotWav

record world =
  com_count :: int
  files :: "string \<rightharpoonup> file_content"
  trace :: "event list"

text \<open>
  The collaborators the source calls but does not define (comtypes, SAPI, \<open>tempfile\<close>,
  sounddevice) are parameters, collected in \<open>env\<close>:
  \<^item> \<open>com_available\<close>: both \<open>CoInitialize\<close> and \<open>CoUninitialize\<close> were imported;
  \<^item> \<open>platform_error\<close>: what \<open>_ensure_windows\<close> raises, if anything;
  \<^item> \<open>token_resolves\<close>: whether \<open>SetId\<close> and the assignment of the voice succeed;
  \<^item> \<open>voices_installed\<close>: \<open>tokens.Count\<close>;
  \<^item> \<open>engine_render\<close>: lines 97 to 106 of sapi.py (open the file stream on the path,
    \<open>Speak\<close>, \<open>Close\<close>), given text, rate, volume and path: the exception raised, if
    any, and the file system it leaves;
  \<^item> \<open>mkstemp_path\<close>: the path \<open>tempfile.mkstemp\<close> returns;
  \<^item> \<open>play_outcome k d\<close>: the message of the exception that opening and writing the output
    stream raises in playback thread \<open>k\<close> (0 the primary, 1 the monitor) on device \<open>d\<close>,
    \<open>None\<close> when it plays;
  \<^item> \<open>monitor_first\<close>: the monitor's thread appends its result before the primary's;
  \<^item> \<open>query_devices\<close>: the device table \<open>sd.query_devices()\<close> returns, one dictionary per
    device (its name, and its \<open>max_output_channels\<close> entry when it has one);
  \<^item> \<open>default_device\<close>: the value of \<open>sd.default.device\<close>: a list or tuple of entries, each
    an index or \<open>None\<close>, or an object of another type (a single index, or nothing), of
    which the program only asks whether it is a list or tuple.
\<close>

record device_dict =
  dict_name :: string
  max_output_channels :: "int option"

datatype device_setting = ListOrTuple "int option list" | Single "int option"

record env =
  com_available :: bool
  platform_error :: "error option"
  token_resolves :: "string \<Rightarrow> bool"
  voices_installed :: nat
  engine_render ::
    "string \<Rightarrow> int \<Rightarrow> int \<Rightarrow> string \<Rightarrow> (string \<rightharpoonup> file_content)
      \<Rightarrow> error option \<times> (string \<rightharpoonup> file_content)"
  mkstemp_path :: string
  play_outcome :: "nat \<Rightarrow> int \<Rightarrow> string option"
  monitor_first :: bool
  query_devices :: "device_dict list"
  default_device :: device_setting

section \<open>sapi.py: the COM scope\<close>

text \<open>
  \<open>_com_scope\<close> is a context manager; \<open>with _com_scope(): body\<close> is \<open>com_scope avail body\<close>.
  The \<open>finally\<close> clauses run whether the body returns or raises, and the body's outcome
  is passed on unchanged.
\<close>

definition com_scope ::
  "bool \<Rightarrow> (world \<Rightarrow> (error + 'a) \<times> world) \<Rightarrow> world \<Rightarrow> (error + 'a) \<times> world" where
  "com_scope avail body w =
     (if \<not> avail then (Inl (ImportError ''comtypes CoInitialize is unavailable.''), w)
      else
        let count = com_count w in
        if count > 0 then
          (case body (w\<lparr>com_count := count + 1\<rparr>) of
             (r, w') \<Rightarrow> (r, w'\<lparr>com_count := com_count w' - 1\<rparr>))
        else
          (case body (w\<lparr>trace := trace w @ [CoInitialize], com_count := 1\<rparr>) of
             (r, w') \<Rightarrow> (r, w'\<lparr>com_count := 0, trace := trace w' @ [CoUninitialize]\<rparr>)))"

text \<open>
  Code that runs under the guard: a step of work (recorded with the counter it sees), a
  raise, a nested \<open>with _com_scope()\<close> block, or two pieces in sequence, the second
  skipped when the first raises.
\<close>

datatype prog = Work string | Raise error | Scope prog | Seq prog prog

fun run :: "bool \<Rightarrow> prog \<Rightarrow> world \<Rightarrow> (error + unit) \<times> world" where
  "run avail (Work l) w = (Inr (), w\<lparr>trace := trace w @ [Ran l (com_count w)]\<rparr>)"
| "run avail (Raise e) w = (Inl e, w)"
| "run avail (Scope p) w = com_scope avail (run avail p) w"
| "run avail (Seq p q) w =
     (case run avail p w of (Inl e, w') \<Rightarrow> (Inl e, w') | (Inr u, w') \<Rightarrow> run avail q w')"

definition is_com_event :: "event \<Rightarrow> bool" where
  "is_com_event e = (e = CoInitialize \<or> e = CoUninitialize)"

text \<open>The counter an event of work saw is at least \<open>c\<close>; other events pass.\<close>

fun ran_at_least :: "int \<Rightarrow> event \<Rightarrow> bool" where
  "ran_at_least c (Ran l k) = (c \<le> k)"
| "ran_at_least c e = True"

section \<open>sapi.py: the clamp helper\<close>

text \<open>\<open>_clamp(value, lo, hi) = int(max(lo, min(hi, value)))\<close> on Python integers.\<close>

definition clamp :: "int \<Rightarrow> int \<Rightarrow> int \<Rightarrow> int" where
  "clamp v lo hi = max lo (min hi v)"

section \<open>sapi.py: text and sample conversions\<close>

text \<open>
  \<open>str.strip()\<close> removes leading and trailing whitespace. Strings are byte strings here,
  and the whitespace characters are the ASCII ones Python knows: tab to carriage return
  (9 to 13), the separators 28 to 31, and the space.
\<close>

definition is_space :: "char \<Rightarrow> bool" where
  "is_space c = (let n = (of_char c :: nat) in (9 \<le> n \<and> n \<le> 13) \<or> (28 \<le> n \<and> n \<le> 32))"

definition strip :: "string \<Rightarrow> string" where
  "strip s = rev (dropWhile is_space (rev (dropWhile is_space s)))"

text \<open>
  Samples are real numbers: the arithmetic of the conversions is exact here, where numpy
  rounds to \<open>float32\<close>. \<open>astype(np.int16)\<close> drops the fraction (rounds towards zero) and
  keeps the low 16 bits; \<open>sint\<close> reads them back as a signed value.
\<close>

definition trunc :: "real \<Rightarrow> int" where
  "trunc x = (if 0 \<le> x then \<lfloor>x\<rfloor> else \<lceil>x\<rceil>)"

definition clip :: "real \<Rightarrow> real \<Rightarrow> real \<Rightarrow> real" where
  "clip x lo hi = min hi (max lo x)"

definition astype_int16 :: "real \<Rightarrow> 16 word" where
  "astype_int16 x = word_of_int (trunc x)"

text \<open>Export: \<open>np.clip(pcm * 32767.0, -32768.0, 32767.0).astype(np.int16)\<close>, per sample.\<close>

definition to_pcm16 :: "real \<Rightarrow> 16 word" where
  "to_pcm16 x = astype_int16 (clip (x * 32767) (-32768) 32767)"

text \<open>Import: \<open>np.frombuffer(frames, dtype=np.int16).astype(np.float32) / 32768.0\<close>.\<close>

definition from_pcm16 :: "16 word \<Rightarrow> real" where
  "from_pcm16 s = real_of_int (sint s) / 32768"

text \<open>One step of the 16-bit scale that import divides by.\<close>

definition quantization_step :: real where
  "quantization_step = 1 / 32768"

section \<open>sapi.py: files\<close>

text \<open>\<open>wave.open(path, "rb")\<close> and reading all frames and the frame rate.\<close>

definition read_wav :: "(string \<rightharpoonup> file_content) \<Rightarrow> string \<Rightarrow> error + (16 word list \<times> int)" where
  "read_wav fs path =
     (case fs path of
        None \<Rightarrow> Inl (FileNotFoundError path)
      | Some NotWav \<Rightarrow> Inl (WaveError ''file does not start with RIFF id'')
      | Some (Wav samplerate frames) \<Rightarrow> Inr (frames, samplerate))"

definition os_remove ::
  "string \<Rightarrow> (string \<rightharpoonup> file_content) \<Rightarrow> (error + unit) \<times> (string \<rightharpoonup> file_content)" where
  "os_remove path fs =
     (case fs path of
        None \<Rightarrow> (Inl (FileNotFoundError path), fs)
      | Some c \<Rightarrow> (Inr (), fs(path := None)))"

text \<open>
  The \<open>finally\<close> clause of \<open>synth_pcm16\<close>: remove the file; a \<open>FileNotFoundError\<close> is passed
  over and the outcome of the \<open>try\<close> block stands, any other exception of the removal
  replaces it.
\<close>

definition finally_remove :: "string \<Rightarrow> (error + 'a) \<times> world \<Rightarrow> (error + 'a) \<times> world" where
  "finally_remove path rw =
     (case rw of (r, w) \<Rightarrow>
        (case os_remove path (files w) of
           (Inl (FileNotFoundError p), fs) \<Rightarrow> (r, w\<lparr>files := fs\<rparr>)
         | (Inl e, fs) \<Rightarrow> (Inl e, w\<lparr>files := fs\<rparr>)
         | (Inr u, fs) \<Rightarrow> (r, w\<lparr>files := fs\<rparr>)))"

section \<open>sapi.py: SapiSynth\<close>

definition default_samplerate :: int where
  "default_samplerate = 16000"

text \<open>
  \<open>_create_voice\<close>: the platform check, the voice object, and the selection of the voice
  when an identifier is given and not empty.
\<close>

definition create_voice :: "env \<Rightarrow> string option \<Rightarrow> world \<Rightarrow> (error + unit) \<times> world" where
  "create_voice E voice w =
     (case platform_error E of
        Some e \<Rightarrow> (Inl e, w)
      | None \<Rightarrow>
          let w1 = w\<lparr>trace := trace w @ [CreateVoice voice]\<rparr> in
          (case voice of
             None \<Rightarrow> (Inr (), w1)
           | Some tid \<Rightarrow>
               if tid = [] then (Inr (), w1)
               else if token_resolves E tid then (Inr (), w1)
               else (Inl (RuntimeError (''Failed to select voice: '' @ tid)), w1)))"

text \<open>The body of the \<open>with _com_scope()\<close> block of \<open>synth_pcm16\<close> (lines 86 to 106).\<close>

definition engine_section ::
  "env \<Rightarrow> string \<Rightarrow> int \<Rightarrow> int \<Rightarrow> string option \<Rightarrow> string \<Rightarrow> world \<Rightarrow> (error + unit) \<times> world" where
  "engine_section E text r v voice tmp_path w =
     (case create_voice E voice w of
        (Inl e, w1) \<Rightarrow> (Inl e, w1)
      | (Inr u, w1) \<Rightarrow>
          if voices_installed E = 0 then
            (Inl (RuntimeError (''Windows SAPI does not have any voices installed. ''
                  @ ''Install a voice pack from Windows settings.'')), w1)
          else
            let r' = clamp r (-10) 10;
                v' = clamp v 0 100;
                w2 = w1\<lparr>trace := trace w1 @ [EngineSpeak text r' v']\<rparr>
            in (case engine_render E text r' v' tmp_path (files w2) of
                  (Some e, fs) \<Rightarrow> (Inl e, w2\<lparr>files := fs\<rparr>)
                | (None, fs) \<Rightarrow> (Inr (), w2\<lparr>files := fs\<rparr>)))"

text \<open>The \<open>try\<close> block of \<open>synth_pcm16\<close> (lines 85 to 115).\<close>

definition synth_try ::
  "env \<Rightarrow> string \<Rightarrow> int \<Rightarrow> int \<Rightarrow> string option \<Rightarrow> string \<Rightarrow> world
    \<Rightarrow> (error + (real list \<times> int)) \<times> world" where
  "synth_try E text r v voice tmp_path w =
     (case com_scope (com_available E) (engine_section E text r v voice tmp_path) w of
        (Inl e, w1) \<Rightarrow> (Inl e, w1)
      | (Inr u, w1) \<Rightarrow>
          (case read_wav (files w1) tmp_path of
             Inl e \<Rightarrow> (Inl e, w1)
           | Inr (frames, samplerate) \<Rightarrow> (Inr (map from_pcm16 frames, samplerate), w1)))"

text \<open>
  \<open>synth_pcm16\<close>. On a string, \<open>text or ""\<close> is the string itself. \<open>mkstemp\<close> creates the
  file, empty, and \<open>os.close\<close> closes it.
\<close>

definition synth_pcm16 ::
  "env \<Rightarrow> string \<Rightarrow> int \<Rightarrow> int \<Rightarrow> string option \<Rightarrow> world \<Rightarrow> (error + (real list \<times> int)) \<times> world" where
  "synth_pcm16 E text r v voice w =
     (let text' = strip text in
      if text' = [] then (Inr ([], default_samplerate), w)
      else
        let tmp_path = mkstemp_path E;
            w1 = w\<lparr>files := (files w)(tmp_path \<mapsto> NotWav)\<rparr>
        in finally_remove tmp_path (synth_try E text' r v voice tmp_path w1))"

text \<open>\<open>export_wav\<close>: synthesize, refuse an empty buffer, convert and write the file.\<close>

definition export_wav ::
  "env \<Rightarrow> string \<Rightarrow> string \<Rightarrow> int \<Rightarrow> int \<Rightarrow> string option \<Rightarrow> world \<Rightarrow> (error + unit) \<times> world" where
  "export_wav E text path r v voice w =
     (case synth_pcm16 E text r v voice w of
        (Inl e, w1) \<Rightarrow> (Inl e, w1)
      | (Inr (pcm, samplerate), w1) \<Rightarrow>
          if pcm = [] then
            (Inl (RuntimeError ''No audio was generated for the provided text.''), w1)
          else
            (Inr (), w1\<lparr>files := (files w1)(path \<mapsto> Wav samplerate (map to_pcm16 pcm))\<rparr>))"

section \<open>service.py: the settings held by TalkAsMicService\<close>

record service =
  device_vb :: "int option"
  device_monitor :: "int option"
  voice_token_id :: "string option"
  rate :: int
  volume :: int

text \<open>\<open>self.rate = max(-10, min(10, int(value)))\<close>; \<open>int\<close> is the identity on an integer.\<close>

definition set_rate :: "int \<Rightarrow> service \<Rightarrow> service" where
  "set_rate v s = s\<lparr>rate := max (-10) (min 10 v)\<rparr>"

text \<open>\<open>self.volume = max(0, min(100, int(value)))\<close>.\<close>

definition set_volume :: "int \<Rightarrow> service \<Rightarrow> service" where
  "set_volume v s = s\<lparr>volume := max 0 (min 100 v)\<rparr>"

definition set_virtual_mic_device :: "int option \<Rightarrow> service \<Rightarrow> service" where
  "set_virtual_mic_device d s = s\<lparr>device_vb := d\<rparr>"

definition set_monitor_device :: "int option \<Rightarrow> service \<Rightarrow> service" where
  "set_monitor_device d s = s\<lparr>device_monitor := d\<rparr>"

section \<open>service.py: device selection\<close>












section \<open>service.py: synthesize and speak\<close>

text \<open>\<open>float(np.max(np.abs(pcm)))\<close> of the buffer \<open>x # xs\<close>.\<close>

definition peak :: "real \<Rightarrow> real list \<Rightarrow> real" where
  "peak x xs = fold max (map abs xs) \<bar>x\<bar>"

definition synthesize ::
  "env \<Rightarrow> service \<Rightarrow> string \<Rightarrow> world \<Rightarrow> (error + (real list \<times> int)) \<times> world" where
  "synthesize E svc text w =
     (case synth_pcm16 E text (rate svc) (volume svc) (voice_token_id svc) w of
        (Inl e, w1) \<Rightarrow> (Inl e, w1)
      | (Inr (pcm, samplerate), w1) \<Rightarrow>
          (case pcm of
             [] \<Rightarrow> (Inl (RuntimeError ''Speech synthesis returned empty audio.''), w1)
           | x # xs \<Rightarrow>
               let p = peak x xs in
               if p > 99 / 100 then (Inr (map (\<lambda>s. s * ((99 / 100) / p)) pcm, samplerate), w1)
               else (Inr (pcm, samplerate), w1)))"

text \<open>Decimal digits of an integer, as an f-string prints it.\<close>

function show_nat :: "nat \<Rightarrow> string" where
  "show_nat n =
     (if n < 10 then [''0123456789'' ! n]
      else show_nat (n div 10) @ [''0123456789'' ! (n mod 10)])"
  by pat_completeness auto
termination
  by (relation "measure id") auto

declare show_nat.simps [simp del]

definition show_int :: "int \<Rightarrow> string" where
  "show_int i = (if i < 0 then ''-'' @ show_nat (nat (- i)) else show_nat (nat i))"

fun join :: "string \<Rightarrow> string list \<Rightarrow> string" where
  "join sep [] = []"
| "join sep [x] = x"
| "join sep (x # y # ys) = x @ sep @ join sep (y # ys)"

text \<open>\<open>f"#{idx}: {err}"\<close> for the results that carry an exception.\<close>

definition error_lines :: "(int \<times> string option) list \<Rightarrow> string list" where
  "error_lines results =
     concat (map (\<lambda>(idx, err). case err of None \<Rightarrow> [] | Some m \<Rightarrow> [''#'' @ show_int idx @ '': '' @ m])
       results)"

text \<open>
  \<open>speak\<close>. The primary's thread is started first, the monitor's second when a monitor is
  set; each opens its output stream, writes, and appends \<open>(device_index, error)\<close> to the
  shared list when it ends. The order in which the two threads end is the environment's.
\<close>

definition speak :: "env \<Rightarrow> service \<Rightarrow> string \<Rightarrow> world \<Rightarrow> (error + unit) \<times> world" where
  "speak E svc text w =
     (case synthesize E svc text w of
        (Inl e, w1) \<Rightarrow> (Inl e, w1)
      | (Inr (pcm, samplerate), w1) \<Rightarrow>
          (case device_vb svc of
             None \<Rightarrow>
               (Inl (RuntimeError
                  ''No VB-CABLE or virtual microphone output device has been selected.''), w1)
           | Some vb \<Rightarrow>
               let threads = (0, vb) # (case device_monitor svc of None \<Rightarrow> [] | Some m \<Rightarrow> [(1, m)]);
                   finished = (if monitor_first E then rev threads else threads);
                   results = map (\<lambda>(k, d). (d, play_outcome E k d)) finished;
                   w2 = w1\<lparr>trace := trace w1 @ map (\<lambda>(k, d). OutputStream d) finished\<rparr>;
                   errors = error_lines results
               in if errors \<noteq> [] then
                    (Inl (RuntimeError (''Failed to play audio on device(s): '' @ join ''; '' errors)), w2)
                  else (Inr (), w2)))"

definition is_output_stream :: "event \<Rightarrow> bool" where
  "is_output_stream e = (case e of OutputStream d \<Rightarrow> True | _ \<Rightarrow> False)"

section \<open>Concrete worlds and environments\<close>

text \<open>
  Inputs at which the theorems below are instantiated: an empty world; an engine that
  raises after the temporary file has vanished; an engine that renders two frames, with a
  monitor thread that cannot open its device and a device table that holds a virtual
  cable; the same with a table that holds none, and with a default that is a single
  index; a piece of code that nests two scopes and raises; a service without a primary
  device and one with a primary and a monitor.
\<close>

definition world0 :: world where
  "world0 = \<lparr>com_count = 0, files = Map.empty, trace = []\<rparr>"

definition env_failing :: env where
  "env_failing =
     \<lparr>com_available = True, platform_error = None, token_resolves = (\<lambda>t. True),
      voices_installed = 1,
      engine_render = (\<lambda>text r v path fs. (Some (OSError ''device lost''), fs(path := None))),
      mkstemp_path = ''tmp0.wav'', play_outcome = (\<lambda>k d. None), monitor_first = False,
      query_devices = [], default_device = Single (Some 3)\<rparr>"

definition env_ok :: env where
  "env_ok =
     \<lparr>com_available = True, platform_error = None, token_resolves = (\<lambda>t. True),
      voices_installed = 1,
      engine_render = (\<lambda>text r v path fs. (None, fs(path \<mapsto> Wav 16000 [-32768, 16384]))),
      mkstemp_path = ''tmp0.wav'',
      play_outcome = (\<lambda>k d. if k = 1 then Some ''Invalid device'' else None),
      monitor_first = False,
      query_devices =
        [\<lparr>dict_name = ''Microphone (USB)'', max_output_channels = Some 0\<rparr>,
         \<lparr>dict_name = ''Speakers (Realtek)'', max_output_channels = Some 2\<rparr>,
         \<lparr>dict_name = ''CABLE Input (VB-Audio Virtual Cable)'', max_output_channels = Some 2\<rparr>],
      default_device = ListOrTuple [Some 0, Some 1]\<rparr>"

definition prog0 :: prog where
  "prog0 = Seq (Scope (Work ''a'')) (Seq (Work ''b'') (Raise (RuntimeError ''x'')))"

definition service0 :: service where
  "service0 =
     \<lparr>device_vb = None, device_monitor = None, voice_token_id = None, rate = 0, volume = 100\<rparr>"

definition service1 :: service where
  "service1 =
     \<lparr>device_vb = Some 2, device_monitor = Some 11, voice_token_id = None,
      rate = 0, volume = 100\<rparr>"



section \<open>Range clamps of the setters\<close>

text \<open>
  C5. For every integer input, \<open>set_rate\<close> stores the value clamped to \<open>[-10, 10]\<close> and
  \<open>set_volume\<close> stores the value clamped to \<open>[0, 100]\<close>: an input below the range stores
  the lower bound, one above it stores the upper bound, one inside it is stored unchanged
  (so \<open>set_rate 999\<close> stores 10 and \<open>set_volume (-5)\<close> stores 0). The helper \<open>_clamp\<close> of
  the backend computes the same two clamps, and no setter touches another field.
\<close>

theorem setters_store_clamped:
  "rate (set_rate v s) = (if v < -10 then -10 else if 10 < v then 10 else v)
   \<and> volume (set_volume v s) = (if v < 0 then 0 else if 100 < v then 100 else v)
   \<and> rate (set_rate v s) = clamp v (-10) 10
   \<and> volume (set_volume v s) = clamp v 0 100
   \<and> rate (set_rate 999 s) = 10
   \<and> volume (set_volume (-5) s) = 0
   \<and> set_rate v s = s\<lparr>rate := clamp v (-10) 10\<rparr>
   \<and> set_volume v s = s\<lparr>volume := clamp v 0 100\<rparr>"
  by (simp add: set_rate_def set_volume_def clamp_def max_def min_def)

section \<open>Blank text\<close>





section \<open>The temporary file\<close>

lemma finally_remove_gone:
  "finally_remove path (r, w) = (r', w') \<Longrightarrow>
     r' = r \<and> files w' = (files w)(path := None)
     \<and> trace w' = trace w \<and> com_count w' = com_count w"
  by (auto simp: finally_remove_def os_remove_def split: option.splits)

text \<open>
  C6. When the stripped text is not empty, whatever \<open>synth_pcm16\<close> returns (a buffer, the
  engine's exception or the exception of reading the file back), the temporary file does
  not exist afterwards, the outcome is exactly the outcome of the \<open>try\<close> block, and the
  removal changes nothing else: a file that was already gone when the \<open>finally\<close> clause
  ran raises nothing.
\<close>

theorem temp_file_removed_on_every_path:
  assumes "strip text \<noteq> []" and "synth_pcm16 E text r v voice w = (res, w')"
  shows "files w' (mkstemp_path E) = None
       \<and> (\<exists>w1. synth_try E (strip text) r v voice (mkstemp_path E)
                  (w\<lparr>files := (files w)(mkstemp_path E \<mapsto> NotWav)\<rparr>) = (res, w1)
              \<and> files w' = (files w1)(mkstemp_path E := None)
              \<and> trace w' = trace w1 \<and> com_count w' = com_count w1)"
proof -
  let ?t = "synth_try E (strip text) r v voice (mkstemp_path E)
              (w\<lparr>files := (files w)(mkstemp_path E \<mapsto> NotWav)\<rparr>)"
  obtain r1 w1 where t: "?t = (r1, w1)" by (cases ?t)
  from assms have "finally_remove (mkstemp_path E) (r1, w1) = (res, w')"
    by (simp add: synth_pcm16_def Let_def t)
  from finally_remove_gone [OF this] t show ?thesis by simp
qed

lemma synth_failing_run:
  "synth_pcm16 env_failing ''hi'' 0 100 None world0 =
    (Inl (OSError ''device lost''),
     \<lparr>com_count = 0, files = Map.empty,
      trace = [CoInitialize, CreateVoice None, EngineSpeak ''hi'' 0 100, CoUninitialize]\<rparr>)"
  by (simp add: synth_pcm16_def strip_def is_space_def env_failing_def world0_def
      synth_try_def com_scope_def engine_section_def create_voice_def clamp_def
      finally_remove_def os_remove_def Let_def)

text \<open>A successful run: rate and volume reach the engine clamped, and the file is gone.\<close>

lemma synth_ok_run:
  "synth_pcm16 env_ok ''hi'' 999 (-5) None world0 =
    (Inr ([-1, 1/2], 16000),
     \<lparr>com_count = 0, files = Map.empty,
      trace = [CoInitialize, CreateVoice None, EngineSpeak ''hi'' 10 0, CoUninitialize]\<rparr>)"
  by (simp add: synth_pcm16_def strip_def is_space_def env_ok_def world0_def
      synth_try_def com_scope_def engine_section_def create_voice_def clamp_def
      finally_remove_def os_remove_def read_wav_def from_pcm16_def Let_def)

theorem temp_file_removed_on_every_path_witness:
  "strip ''hi'' \<noteq> []
   \<and> synth_pcm16 env_failing ''hi'' 0 100 None world0 =
       (Inl (OSError ''device lost''),
        \<lparr>com_count = 0, files = Map.empty,
         trace = [CoInitialize, CreateVoice None, EngineSpeak ''hi'' 0 100, CoUninitialize]\<rparr>)
   \<and> files \<lparr>com_count = 0, files = Map.empty,
         trace = [CoInitialize, CreateVoice None, EngineSpeak ''hi'' 0 100, CoUninitialize]\<rparr>
        (mkstemp_path env_failing) = None"
proof -
  have a: "strip ''hi'' \<noteq> []" by (simp add: strip_def is_space_def)
  from temp_file_removed_on_every_path [OF a synth_failing_run] a synth_failing_run
  show ?thesis by simp
qed

section \<open>The COM scope\<close>

lemma run_nested:
  "0 < com_count w \<Longrightarrow> run avail p w = (r, w') \<Longrightarrow>
     com_count w' = com_count w \<and> files w' = files w \<and>
     (\<exists>mid. trace w' = trace w @ mid
        \<and> list_all (\<lambda>e. \<not> is_com_event e \<and> ran_at_least (com_count w) e) mid)"
proof (induction p arbitrary: w r w')
  case (Work l)
  then show ?case by (auto simp: is_com_event_def)
next
  case (Raise e)
  then show ?case by auto
next
  case (Scope p)
  show ?case
  proof (cases avail)
    case False
    with Scope.prems show ?thesis by (auto simp: com_scope_def)
  next
    case True
    obtain r1 w1 where b: "run avail p (w\<lparr>com_count := com_count w + 1\<rparr>) = (r1, w1)"
      by (cases "run avail p (w\<lparr>com_count := com_count w + 1\<rparr>)")
    have pos: "0 < com_count (w\<lparr>com_count := com_count w + 1\<rparr>)"
      using Scope.prems(1) by simp
    from Scope.IH [OF pos b]
    obtain mid where m: "com_count w1 = com_count w + 1" "files w1 = files w"
      "trace w1 = trace w @ mid"
      "list_all (\<lambda>e. \<not> is_com_event e \<and> ran_at_least (com_count w + 1) e) mid"
      by auto
    have weaker: "ran_at_least (com_count w) e" if "ran_at_least (com_count w + 1) e" for e
      using that by (cases e) auto
    from m(4) have "list_all (\<lambda>e. \<not> is_com_event e \<and> ran_at_least (com_count w) e) mid"
      by (auto simp: list_all_iff weaker)
    moreover from Scope.prems True b have "r = r1" "w' = w1\<lparr>com_count := com_count w1 - 1\<rparr>"
      by (auto simp: com_scope_def Let_def)
    ultimately show ?thesis using m by auto
  qed
next
  case (Seq p q)
  obtain r1 w1 where p: "run avail p w = (r1, w1)"
    by (cases "run avail p w")
  from Seq.IH(1) [OF Seq.prems(1) p]
  obtain mid1 where m1: "com_count w1 = com_count w" "files w1 = files w"
    "trace w1 = trace w @ mid1"
    "list_all (\<lambda>e. \<not> is_com_event e \<and> ran_at_least (com_count w) e) mid1"
    by auto
  show ?case
  proof (cases r1)
    case (Inl e)
    with Seq.prems p have "r = Inl e" "w' = w1" by auto
    with m1 show ?thesis by auto
  next
    case (Inr u)
    with Seq.prems p have q: "run avail q w1 = (r, w')" by auto
    have pos: "0 < com_count w1" using m1(1) Seq.prems(1) by simp
    from Seq.IH(2) [OF pos q] m1 show ?thesis by auto
  qed
qed

text \<open>
  C9. A \<open>with _com_scope()\<close> block around any code \<open>p\<close> (which may nest further blocks and
  may raise), with the COM functions available. Entered with the counter at zero, it
  calls \<open>CoInitialize\<close> once, first, and \<open>CoUninitialize\<close> once, last; between the two no
  initialisation or teardown happens, all work sees a counter of at least 1, and the
  counter is zero again at the end. Entered with a positive counter, it calls neither,
  the work inside sees a counter raised by at least one, and the counter is back at its
  old value at the end. Both hold whether the block returns or raises. A single step of
  work directly inside the block sees the counter at exactly 1, or one more than before.
\<close>

theorem com_scope_refcount:
  assumes "avail" and "run avail (Scope p) w = (r, w')"
  shows "(com_count w = 0 \<longrightarrow>
            com_count w' = 0 \<and>
            (\<exists>mid. trace w' = trace w @ [CoInitialize] @ mid @ [CoUninitialize]
               \<and> list_all (\<lambda>e. \<not> is_com_event e \<and> ran_at_least 1 e) mid))
       \<and> (0 < com_count w \<longrightarrow>
            com_count w' = com_count w \<and>
            (\<exists>mid. trace w' = trace w @ mid
               \<and> list_all (\<lambda>e. \<not> is_com_event e \<and> ran_at_least (com_count w + 1) e) mid))
       \<and> files w' = files w
       \<and> run avail (Scope (Work l)) w =
           (Inr (),
            if 0 < com_count w then w\<lparr>trace := trace w @ [Ran l (com_count w + 1)]\<rparr>
            else w\<lparr>trace := trace w @ [CoInitialize, Ran l 1, CoUninitialize], com_count := 0\<rparr>)"
proof -
  let ?w0 = "w\<lparr>trace := trace w @ [CoInitialize], com_count := 1\<rparr>"
  let ?w1 = "w\<lparr>com_count := com_count w + 1\<rparr>"
  have single: "run avail (Scope (Work l)) w =
           (Inr (),
            if 0 < com_count w then w\<lparr>trace := trace w @ [Ran l (com_count w + 1)]\<rparr>
            else w\<lparr>trace := trace w @ [CoInitialize, Ran l 1, CoUninitialize], com_count := 0\<rparr>)"
    using assms(1) by (simp add: com_scope_def Let_def)
  have first: "com_count w' = 0 \<and> files w' = files w \<and>
            (\<exists>mid. trace w' = trace w @ [CoInitialize] @ mid @ [CoUninitialize]
               \<and> list_all (\<lambda>e. \<not> is_com_event e \<and> ran_at_least 1 e) mid)"
    if z: "\<not> 0 < com_count w"
  proof -
    obtain r1 w1 where b: "run avail p ?w0 = (r1, w1)" by (cases "run avail p ?w0")
    have "0 < com_count ?w0" by simp
    from run_nested [OF this b]
    obtain mid where m: "com_count w1 = 1" "files w1 = files w"
      "trace w1 = trace w @ [CoInitialize] @ mid"
      "list_all (\<lambda>e. \<not> is_com_event e \<and> ran_at_least 1 e) mid"
      by auto
    from assms z b have "w' = w1\<lparr>com_count := 0, trace := trace w1 @ [CoUninitialize]\<rparr>"
      by (auto simp: com_scope_def Let_def)
    with m z show ?thesis by auto
  qed
  have nested: "com_count w' = com_count w \<and> files w' = files w \<and>
            (\<exists>mid. trace w' = trace w @ mid
               \<and> list_all (\<lambda>e. \<not> is_com_event e \<and> ran_at_least (com_count w + 1) e) mid)"
    if z: "0 < com_count w"
  proof -
    obtain r1 w1 where b: "run avail p ?w1 = (r1, w1)" by (cases "run avail p ?w1")
    have "0 < com_count ?w1" using z by simp
    from run_nested [OF this b]
    obtain mid where m: "com_count w1 = com_count w + 1" "files w1 = files w"
      "trace w1 = trace w @ mid"
      "list_all (\<lambda>e. \<not> is_com_event e \<and> ran_at_least (com_count w + 1) e) mid"
      by auto
    from assms z b have "w' = w1\<lparr>com_count := com_count w1 - 1\<rparr>"
      by (auto simp: com_scope_def Let_def)
    with m z show ?thesis by auto
  qed
  from first nested single show ?thesis
    by (cases "0 < com_count w") simp_all
qed

lemma prog0_run:
  "run True (Scope prog0) world0 =
     (Inl (RuntimeError ''x''),
      \<lparr>com_count = 0, files = Map.empty,
       trace = [CoInitialize, Ran ''a'' 2, Ran ''b'' 1, CoUninitialize]\<rparr>)"
  by (simp add: prog0_def com_scope_def world0_def)

theorem com_scope_refcount_witness:
  "run True (Scope prog0) world0 =
     (Inl (RuntimeError ''x''),
      \<lparr>com_count = 0, files = Map.empty,
       trace = [CoInitialize, Ran ''a'' 2, Ran ''b'' 1, CoUninitialize]\<rparr>)
   \<and> com_count world0 = 0
   \<and> (\<exists>mid. [CoInitialize, Ran ''a'' 2, Ran ''b'' 1, CoUninitialize]
              = trace world0 @ [CoInitialize] @ mid @ [CoUninitialize]
          \<and> list_all (\<lambda>e. \<not> is_com_event e \<and> ran_at_least 1 e) mid)"
proof -
  have c: "com_count world0 = 0" by (simp add: world0_def)
  from com_scope_refcount [OF TrueI prog0_run, of "''a''"] c prog0_run
  show ?thesis by simp
qed

section \<open>Playback\<close>

text \<open>Synthesis opens no output stream: it adds no \<open>OutputStream\<close> event to the trace.\<close>

lemma create_voice_streams:
  "create_voice E voice w = (r, w') \<Longrightarrow>
     filter is_output_stream (trace w') = filter is_output_stream (trace w)"
  by (auto simp: create_voice_def is_output_stream_def Let_def split: option.splits if_splits)

lemma engine_section_streams:
  "engine_section E text r v voice tmp w = (res, w') \<Longrightarrow>
     filter is_output_stream (trace w') = filter is_output_stream (trace w)"
proof -
  assume a: "engine_section E text r v voice tmp w = (res, w')"
  obtain r1 w1 where c: "create_voice E voice w = (r1, w1)" by (cases "create_voice E voice w")
  from create_voice_streams [OF c]
  have s1: "filter is_output_stream (trace w1) = filter is_output_stream (trace w)" .
  from a c s1 show ?thesis
    by (auto simp: engine_section_def is_output_stream_def Let_def
        split: sum.splits if_splits prod.splits option.splits)
qed

lemma com_scope_streams:
  assumes body: "\<And>u r u'. body u = (r, u') \<Longrightarrow>
      filter is_output_stream (trace u') = filter is_output_stream (trace u)"
    and run: "com_scope avail body w = (res, w')"
  shows "filter is_output_stream (trace w') = filter is_output_stream (trace w)"
proof (cases avail)
  case False
  with run show ?thesis by (simp add: com_scope_def)
next
  case True
  show ?thesis
  proof (cases "0 < com_count w")
    case pos: True
    obtain r1 w1 where b: "body (w\<lparr>com_count := com_count w + 1\<rparr>) = (r1, w1)"
      by (cases "body (w\<lparr>com_count := com_count w + 1\<rparr>)")
    from body [OF b] run True pos b show ?thesis
      by (auto simp: com_scope_def Let_def)
  next
    case zero: False
    obtain r1 w1 where b: "body (w\<lparr>trace := trace w @ [CoInitialize], com_count := 1\<rparr>) = (r1, w1)"
      by (cases "body (w\<lparr>trace := trace w @ [CoInitialize], com_count := 1\<rparr>)")
    from body [OF b] run True zero b show ?thesis
      by (auto simp: com_scope_def Let_def is_output_stream_def)
  qed
qed

lemma synth_try_streams:
  assumes "synth_try E text r v voice tmp w = (res, w')"
  shows "filter is_output_stream (trace w') = filter is_output_stream (trace w)"
proof -
  let ?c = "com_scope (com_available E) (engine_section E text r v voice tmp) w"
  obtain r1 w1 where c: "?c = (r1, w1)" by (cases ?c)
  have "filter is_output_stream (trace w1) = filter is_output_stream (trace w)"
    by (rule com_scope_streams [OF _ c]) (rule engine_section_streams)
  moreover from assms c have "w' = w1"
    by (auto simp: synth_try_def split: sum.splits prod.splits)
  ultimately show ?thesis by simp
qed

lemma synth_pcm16_streams:
  assumes "synth_pcm16 E text r v voice w = (res, w')"
  shows "filter is_output_stream (trace w') = filter is_output_stream (trace w)"
proof (cases "strip text = []")
  case True
  with assms show ?thesis by (simp add: synth_pcm16_def)
next
  case False
  let ?w1 = "w\<lparr>files := (files w)(mkstemp_path E \<mapsto> NotWav)\<rparr>"
  let ?t = "synth_try E (strip text) r v voice (mkstemp_path E) ?w1"
  obtain r1 w1 where t: "?t = (r1, w1)" by (cases ?t)
  from assms False have "finally_remove (mkstemp_path E) (r1, w1) = (res, w')"
    by (simp add: synth_pcm16_def Let_def t)
  from finally_remove_gone [OF this] synth_try_streams [OF t] show ?thesis by simp
qed

lemma synthesize_streams:
  assumes "synthesize E svc text w = (res, w')"
  shows "filter is_output_stream (trace w') = filter is_output_stream (trace w)"
proof -
  let ?s = "synth_pcm16 E text (rate svc) (volume svc) (voice_token_id svc) w"
  obtain r1 w1 where s: "?s = (r1, w1)" by (cases ?s)
  from assms s have "w' = w1"
    by (auto simp: synthesize_def Let_def split: sum.splits prod.splits list.splits if_splits)
  with synth_pcm16_streams [OF s] show ?thesis by simp
qed

text \<open>
  C2, as amended. On a service whose primary device is unset, \<open>speak\<close> always fails and
  opens no output stream on any device. Synthesis runs first: when it raises (as it does
  with its "empty audio" error on a blank text), that exception is the failure; when it
  returns a buffer, the failure is the "no output device selected" error.
\<close>

theorem speak_without_primary_device:
  assumes "device_vb svc = None" and "speak E svc text w = (res, w')"
  shows "(\<exists>e. res = Inl e)
       \<and> filter is_output_stream (trace w') = filter is_output_stream (trace w)
       \<and> (case synthesize E svc text w of
            (Inl e, w1) \<Rightarrow> res = Inl e \<and> w' = w1
          | (Inr b, w1) \<Rightarrow>
              res = Inl (RuntimeError
                ''No VB-CABLE or virtual microphone output device has been selected.'')
              \<and> w' = w1)"
proof -
  obtain r1 w1 where s: "synthesize E svc text w = (r1, w1)"
    by (cases "synthesize E svc text w")
  from assms s have w: "w' = w1"
    by (auto simp: speak_def split: sum.splits prod.splits)
  from assms s have r: "case r1 of Inl e \<Rightarrow> res = Inl e
      | Inr b \<Rightarrow> res = Inl (RuntimeError
                ''No VB-CABLE or virtual microphone output device has been selected.'')"
    by (auto simp: speak_def split: sum.splits prod.splits)
  from synthesize_streams [OF s] w r s show ?thesis
    by (auto split: sum.splits)
qed

text \<open>
  The claim as first stated asks for the "no output device selected" error on every call;
  on the empty text the error is the one of the synthesis.
\<close>

lemma speak_blank_run:
  "speak env_ok service0 [] world0
     = (Inl (RuntimeError ''Speech synthesis returned empty audio.''), world0)"
  by (simp add: speak_def synthesize_def synth_pcm16_def strip_def)

theorem speak_without_primary_device_counterexample:
  "device_vb service0 = None
   \<and> speak env_ok service0 [] world0
       = (Inl (RuntimeError ''Speech synthesis returned empty audio.''), world0)
   \<and> fst (speak env_ok service0 [] world0)
       \<noteq> Inl (RuntimeError ''No VB-CABLE or virtual microphone output device has been selected.'')"
  by (simp add: speak_blank_run, simp add: service0_def)

lemma synthesize_ok_run:
  "synthesize env_ok service0 ''hi'' world0 =
    (Inr ([-99/100, 99/200], 16000),
     \<lparr>com_count = 0, files = Map.empty,
      trace = [CoInitialize, CreateVoice None, EngineSpeak ''hi'' 0 100, CoUninitialize]\<rparr>)"
  by (simp add: synthesize_def service0_def peak_def synth_pcm16_def strip_def is_space_def env_ok_def world0_def
      synth_try_def com_scope_def engine_section_def create_voice_def clamp_def
      finally_remove_def os_remove_def read_wav_def from_pcm16_def Let_def)

lemma speak_no_device_run:
  "speak env_ok service0 ''hi'' world0 =
    (Inl (RuntimeError ''No VB-CABLE or virtual microphone output device has been selected.''),
     \<lparr>com_count = 0, files = Map.empty,
      trace = [CoInitialize, CreateVoice None, EngineSpeak ''hi'' 0 100, CoUninitialize]\<rparr>)"
  by (simp add: speak_def synthesize_ok_run, simp add: service0_def)

theorem speak_without_primary_device_witness:
  "device_vb service0 = None
   \<and> speak env_ok service0 ''hi'' world0 =
      (Inl (RuntimeError ''No VB-CABLE or virtual microphone output device has been selected.''),
       \<lparr>com_count = 0, files = Map.empty,
        trace = [CoInitialize, CreateVoice None, EngineSpeak ''hi'' 0 100, CoUninitialize]\<rparr>)
   \<and> filter is_output_stream [CoInitialize, CreateVoice None, EngineSpeak ''hi'' 0 100, CoUninitialize]
       = filter is_output_stream (trace world0)"
proof -
  have a: "device_vb service0 = None" by (simp add: service0_def)
  from speak_without_primary_device [OF a speak_no_device_run] a speak_no_device_run
  show ?thesis by simp
qed

text \<open>
  C3. With a primary device \<open>p\<close> and a monitor device \<open>m\<close> set and a buffer synthesized, both
  playbacks are always attempted, whatever the other one does, and only afterwards is the
  outcome decided: no error when both played, otherwise one \<open>RuntimeError\<close> whose message
  lists \<open>#index: message\<close> for each device that failed and for no other, in the order in
  which the threads ended. A primary that plays with a monitor that fails gives an error
  naming the monitor's index only, and the other way round.
\<close>

theorem speak_reports_each_failure:
  assumes "device_vb svc = Some p" and "device_monitor svc = Some m"
    and "synthesize E svc text w = (Inr (pcm, samplerate), w1)"
  shows "fst (speak E svc text w) =
          (case (play_outcome E 0 p, play_outcome E 1 m) of
             (None, None) \<Rightarrow> Inr ()
           | (None, Some b) \<Rightarrow>
               Inl (RuntimeError (''Failed to play audio on device(s): #'' @ show_int m @ '': '' @ b))
           | (Some a, None) \<Rightarrow>
               Inl (RuntimeError (''Failed to play audio on device(s): #'' @ show_int p @ '': '' @ a))
           | (Some a, Some b) \<Rightarrow>
               Inl (RuntimeError (''Failed to play audio on device(s): '' @
                 (if monitor_first E
                  then ''#'' @ show_int m @ '': '' @ b @ ''; '' @ ''#'' @ show_int p @ '': '' @ a
                  else ''#'' @ show_int p @ '': '' @ a @ ''; '' @ ''#'' @ show_int m @ '': '' @ b))))
       \<and> snd (speak E svc text w) =
           w1\<lparr>trace := trace w1 @
              (if monitor_first E then [OutputStream m, OutputStream p]
               else [OutputStream p, OutputStream m])\<rparr>"
  using assms
  by (simp add: speak_def Let_def error_lines_def split: option.splits)

lemma synthesize_ok_run1:
  "synthesize env_ok service1 ''hi'' world0 =
    (Inr ([-99/100, 99/200], 16000),
     \<lparr>com_count = 0, files = Map.empty,
      trace = [CoInitialize, CreateVoice None, EngineSpeak ''hi'' 0 100, CoUninitialize]\<rparr>)"
  by (simp add: synthesize_def service1_def peak_def synth_pcm16_def strip_def is_space_def env_ok_def world0_def
      synth_try_def com_scope_def engine_section_def create_voice_def clamp_def
      finally_remove_def os_remove_def read_wav_def from_pcm16_def Let_def)

lemma show_int_11: "show_int 11 = ''11''"
  by (simp add: show_int_def show_nat.simps)

theorem speak_reports_each_failure_witness:
  "device_vb service1 = Some 2 \<and> device_monitor service1 = Some 11
   \<and> synthesize env_ok service1 ''hi'' world0 =
       (Inr ([-99/100, 99/200], 16000),
        \<lparr>com_count = 0, files = Map.empty,
         trace = [CoInitialize, CreateVoice None, EngineSpeak ''hi'' 0 100, CoUninitialize]\<rparr>)
   \<and> fst (speak env_ok service1 ''hi'' world0) =
       Inl (RuntimeError ''Failed to play audio on device(s): #11: Invalid device'')
   \<and> snd (speak env_ok service1 ''hi'' world0) =
        \<lparr>com_count = 0, files = Map.empty,
         trace = [CoInitialize, CreateVoice None, EngineSpeak ''hi'' 0 100, CoUninitialize,
                  OutputStream 2, OutputStream 11]\<rparr>"
proof -
  have a: "device_vb service1 = Some 2" and b: "device_monitor service1 = Some 11"
    by (simp_all add: service1_def)
  have o: "play_outcome env_ok 0 2 = None"
    "play_outcome env_ok (Suc 0) 11 = Some ''Invalid device''"
    "monitor_first env_ok = False"
    by (simp_all add: env_ok_def)
  from speak_reports_each_failure [OF a b synthesize_ok_run1] a b synthesize_ok_run1
  show ?thesis by (simp add: o show_int_11)
qed

section \<open>Peak normalisation\<close>

lemma peak_Max: "peak x xs = Max (abs ` set (x # xs))"
proof -
  have "Max (set (map abs (x # xs))) = fold max (map abs xs) \<bar>x\<bar>"
    by (simp only: list.map Max.set_eq_fold)
  then show ?thesis by (simp add: peak_def)
qed

lemma Max_abs_scale:
  fixes pcm :: "real list" and k :: real
  assumes "pcm \<noteq> []" and "0 \<le> k"
  shows "Max (abs ` set (map (\<lambda>s. s * k) pcm)) = Max (abs ` set pcm) * k"
proof -
  have fin: "finite (abs ` set pcm)" and ne: "abs ` set pcm \<noteq> {}"
    using assms(1) by auto
  have e: "\<bar>s * k\<bar> = \<bar>s\<bar> * k" for s :: real
    using assms(2) by (simp add: abs_mult)
  have "abs ` set (map (\<lambda>s. s * k) pcm) = (\<lambda>a. a * k) ` (abs ` set pcm)"
    by (simp add: image_image e)
  moreover have "Max ((\<lambda>a. a * k) ` (abs ` set pcm)) = Max (abs ` set pcm) * k"
    by (rule mono_Max_commute [symmetric, OF _ fin ne])
      (auto simp: mono_def intro: mult_right_mono assms(2))
  ultimately show ?thesis by simp
qed

text \<open>
  C4. When the backend returns a non-empty buffer, \<open>synthesize\<close> returns it with the same
  sample rate and world, normalised: if the largest absolute sample exceeds 0.99, every
  sample is multiplied by the one factor 0.99 / peak and the largest absolute sample of
  the result is 0.99; otherwise the buffer is returned as it is. Samples are reals, so
  the result is exact where the program's is within floating-point rounding.
\<close>

theorem synthesize_normalizes_peak:
  assumes "synth_pcm16 E text (rate svc) (volume svc) (voice_token_id svc) w
             = (Inr (pcm, samplerate), w1)"
    and "pcm \<noteq> []"
  shows "\<exists>out. synthesize E svc text w = (Inr (out, samplerate), w1)
           \<and> (if Max (abs ` set pcm) > 99 / 100
               then out = map (\<lambda>s. s * ((99 / 100) / Max (abs ` set pcm))) pcm
                    \<and> Max (abs ` set out) = 99 / 100
               else out = pcm)"
proof -
  obtain x xs where c: "pcm = x # xs" using assms(2) by (cases pcm) auto
  let ?p = "Max (abs ` set pcm)"
  have pk: "peak x xs = ?p" by (simp add: peak_Max c)
  show ?thesis
  proof (cases "?p > 99 / 100")
    case True
    let ?k = "(99 / 100) / ?p"
    have k: "0 \<le> ?k" using True by simp
    have "Max (abs ` set (map (\<lambda>s. s * ?k) pcm)) = ?p * ?k"
      by (rule Max_abs_scale [OF assms(2) k])
    also have "\<dots> = 99 / 100" using True by simp
    finally have m: "Max (abs ` set (map (\<lambda>s. s * ?k) pcm)) = 99 / 100" .
    have "synthesize E svc text w = (Inr (map (\<lambda>s. s * ?k) pcm, samplerate), w1)"
      using assms(1) True pk c by (simp add: synthesize_def Let_def)
    with m True show ?thesis by simp
  next
    case False
    have "synthesize E svc text w = (Inr (pcm, samplerate), w1)"
      using assms(1) False pk c by (simp add: synthesize_def Let_def)
    with False show ?thesis by simp
  qed
qed

lemma synth_ok_run0:
  "synth_pcm16 env_ok ''hi'' (rate service0) (volume service0) (voice_token_id service0) world0 =
    (Inr ([-1, 1/2], 16000),
     \<lparr>com_count = 0, files = Map.empty,
      trace = [CoInitialize, CreateVoice None, EngineSpeak ''hi'' 0 100, CoUninitialize]\<rparr>)"
  by (simp add: service0_def synth_pcm16_def strip_def is_space_def env_ok_def world0_def
      synth_try_def com_scope_def engine_section_def create_voice_def clamp_def
      finally_remove_def os_remove_def read_wav_def from_pcm16_def Let_def)

theorem synthesize_normalizes_peak_witness:
  "synth_pcm16 env_ok ''hi'' (rate service0) (volume service0) (voice_token_id service0) world0 =
    (Inr ([-1, 1/2], 16000),
     \<lparr>com_count = 0, files = Map.empty,
      trace = [CoInitialize, CreateVoice None, EngineSpeak ''hi'' 0 100, CoUninitialize]\<rparr>)
   \<and> [-1, 1/2 :: real] \<noteq> []
   \<and> Max (abs ` set [-1, 1/2 :: real]) = 1
   \<and> synthesize env_ok service0 ''hi'' world0 =
       (Inr ([-99/100, 99/200], 16000),
        \<lparr>com_count = 0, files = Map.empty,
         trace = [CoInitialize, CreateVoice None, EngineSpeak ''hi'' 0 100, CoUninitialize]\<rparr>)
   \<and> Max (abs ` set [-99/100, 99/200 :: real]) = 99 / 100"
proof -
  have n: "[-1, 1/2 :: real] \<noteq> []" by simp
  from synthesize_normalizes_peak [OF synth_ok_run0 n] synth_ok_run0
  show ?thesis by auto
qed

section \<open>Sample conversions\<close>

lemma sint_word_of_int_16:
  "- 32768 \<le> i \<Longrightarrow> i \<le> 32767 \<Longrightarrow> sint (word_of_int i :: 16 word) = i"
  by (simp add: sint_sbintrunc' signed_take_bit_int_eq_self)

lemma clip_bounds: "lo \<le> hi \<Longrightarrow> lo \<le> clip x lo hi \<and> clip x lo hi \<le> hi"
  by (simp add: clip_def min_def max_def)

lemma trunc_bounds:
  assumes "real_of_int a \<le> y" and "y \<le> real_of_int b"
  shows "a \<le> trunc y \<and> trunc y \<le> b"
proof (cases "0 \<le> y")
  case True
  then have "trunc y = \<lfloor>y\<rfloor>" by (simp add: trunc_def)
  with assms show ?thesis by (simp add: le_floor_iff floor_le_iff)
next
  case False
  then have "trunc y = \<lceil>y\<rceil>" by (simp add: trunc_def)
  with assms show ?thesis by (simp add: ceiling_le_iff le_ceiling_iff)
qed

lemma trunc_clip_range:
  "- 32768 \<le> trunc (clip y (- 32768) 32767) \<and> trunc (clip y (- 32768) 32767) \<le> 32767"
proof -
  have "real_of_int (- 32768) \<le> clip y (- 32768) 32767"
    and "clip y (- 32768) 32767 \<le> real_of_int 32767"
    using clip_bounds [of "- 32768" 32767 y] by simp_all
  from trunc_bounds [OF this] show ?thesis by simp
qed

lemma sint_to_pcm16: "sint (to_pcm16 x) = trunc (clip (x * 32767) (- 32768) 32767)"
  using trunc_clip_range [of "x * 32767"]
  by (simp add: to_pcm16_def astype_int16_def sint_word_of_int_16)

text \<open>
  C10. For every sample, also outside \<open>[-1, 1]\<close>, the value that export casts to 16 bits
  already lies in \<open>[-32768, 32767]\<close>, so the cast keeps it: read as a signed number, the
  exported sample is the truncated clipped value, and nothing wraps around. A sample of
  2 is exported as 32767 and one of -2 as -32768, where the cast alone, without the clip,
  would turn 65534 into -2.
\<close>

theorem export_conversion_never_wraps:
  "sint (to_pcm16 x) = trunc (clip (x * 32767) (- 32768) 32767)
   \<and> - 32768 \<le> trunc (clip (x * 32767) (- 32768) 32767)
   \<and> trunc (clip (x * 32767) (- 32768) 32767) \<le> 32767
   \<and> sint (to_pcm16 2) = 32767 \<and> sint (to_pcm16 (- 2)) = - 32768
   \<and> sint (astype_int16 (2 * 32767)) = - 2"
proof -
  have a: "sint (to_pcm16 2) = 32767" "sint (to_pcm16 (- 2)) = - 32768"
    by (simp_all add: sint_to_pcm16 clip_def trunc_def)
  have b: "sint (astype_int16 (2 * 32767)) = - 2"
    by (simp add: astype_int16_def trunc_def)
  from a b sint_to_pcm16 [of x] trunc_clip_range [of "x * 32767"] show ?thesis by simp
qed


lemma from_pcm16_int:
  obtains k where "- 32768 \<le> k" and "k \<le> 32767" and "from_pcm16 s = real_of_int k / 32768"
proof
  show "- 32768 \<le> sint s" using sint_ge [of s] by simp
  show "sint s \<le> 32767" using sint_lt [of s] by simp
  show "from_pcm16 s = real_of_int (sint s) / 32768" by (simp only: from_pcm16_def)
qed

lemma reexport_sample:
  "\<bar>from_pcm16 (to_pcm16 (from_pcm16 s)) - from_pcm16 s\<bar> \<le> quantization_step"
proof -
  obtain k where r: "- 32768 \<le> k" "k \<le> 32767" and fs: "from_pcm16 s = real_of_int k / 32768"
    by (rule from_pcm16_int)
  let ?y = "from_pcm16 s * 32767"
  have y: "?y = real_of_int k - real_of_int k / 32768"
    by (simp add: fs)
  have c: "clip ?y (- 32768) 32767 = ?y"
    using r by (simp add: y clip_def min_def max_def)
  have f: "from_pcm16 (to_pcm16 (from_pcm16 s)) = real_of_int (trunc ?y) / 32768"
    by (simp only: from_pcm16_def [of "to_pcm16 (from_pcm16 s)"] sint_to_pcm16 c)
  have near: "k - 1 \<le> trunc ?y \<and> trunc ?y \<le> k + 1"
  proof (rule trunc_bounds)
    show "real_of_int (k - 1) \<le> ?y" using r by (simp add: y)
    show "?y \<le> real_of_int (k + 1)" using r by (simp add: y)
  qed
  then have b: "\<bar>real_of_int (trunc ?y) - real_of_int k\<bar> \<le> 1" by linarith
  have d: "from_pcm16 (to_pcm16 (from_pcm16 s)) - from_pcm16 s
      = (real_of_int (trunc ?y) - real_of_int k) / 32768"
    by (simp only: f) (simp add: fs diff_divide_distrib)
  have "\<bar>from_pcm16 (to_pcm16 (from_pcm16 s)) - from_pcm16 s\<bar>
      = \<bar>real_of_int (trunc ?y) - real_of_int k\<bar> / 32768"
    by (simp only: d abs_divide abs_numeral)
  also have "\<dots> \<le> 1 / 32768"
    using b by (simp only: divide_right_mono zero_le_numeral)
  finally show ?thesis by (simp only: quantization_step_def)
qed

lemma synth_pcm16_frames:
  assumes "synth_pcm16 E text r v voice w = (Inr (pcm, samplerate), w1)"
  shows "\<exists>frames. pcm = map from_pcm16 frames"
proof (cases "strip text = []")
  case True
  with assms have "pcm = map from_pcm16 []" by (simp add: synth_pcm16_def)
  then show ?thesis by blast
next
  case False
  let ?t = "synth_try E (strip text) r v voice (mkstemp_path E)
              (w\<lparr>files := (files w)(mkstemp_path E \<mapsto> NotWav)\<rparr>)"
  obtain r1 w2 where t: "?t = (r1, w2)" by (cases ?t)
  from assms False have "finally_remove (mkstemp_path E) (r1, w2) = (Inr (pcm, samplerate), w1)"
    by (simp add: synth_pcm16_def Let_def t)
  from finally_remove_gone [OF this] have "r1 = Inr (pcm, samplerate)" by simp
  with t show ?thesis
    by (auto simp: synth_try_def split: sum.splits prod.splits)
qed


lemma reexport_buffer:
  "list_all2 (\<lambda>s y. \<bar>y - from_pcm16 s\<bar> \<le> quantization_step) frames
     (map from_pcm16 (map to_pcm16 (map from_pcm16 frames)))"
  by (induction frames) (simp_all add: reexport_sample)


text \<open>
  The same on \<open>export_wav\<close> itself: what it writes, read back, is within one step of the
  buffer that the synthesis returned.
\<close>

lemma export_wav_reads_back:
  assumes "synth_pcm16 E text r v voice w = (Inr (pcm, samplerate), w1)" and "pcm \<noteq> []"
  shows "\<exists>w2 frames. export_wav E text path r v voice w = (Inr (), w2)
           \<and> read_wav (files w2) path = Inr (frames, samplerate)
           \<and> list_all2 (\<lambda>x y. \<bar>y - x\<bar> \<le> quantization_step) pcm (map from_pcm16 frames)"
proof -
  from synth_pcm16_frames [OF assms(1)] obtain fr where fr: "pcm = map from_pcm16 fr" by blast
  let ?w2 = "w1\<lparr>files := (files w1)(path \<mapsto> Wav samplerate (map to_pcm16 pcm))\<rparr>"
  have "export_wav E text path r v voice w = (Inr (), ?w2)"
    using assms by (simp add: export_wav_def)
  moreover have "read_wav (files ?w2) path = Inr (map to_pcm16 pcm, samplerate)"
    by (simp add: read_wav_def)
  moreover have "list_all2 (\<lambda>x y. \<bar>y - x\<bar> \<le> quantization_step) pcm
      (map from_pcm16 (map to_pcm16 pcm))"
    using reexport_buffer [of fr] by (simp add: fr list_all2_map1)
  ultimately show ?thesis by blast
qed



section \<open>Device selection\<close>
















end
